theory Spec2Isabelle
  imports Complex_Main
begin

section \<open>Data model of \<open>src/index.tsx\<close>\<close>

text \<open>
  The TypeScript types of the program are erased when it runs, so the model follows
  the run-time values. The enum \<open>Direction\<close> has four members whose values are the
  strings \<open>'up'\<close>, \<open>'left'\<close>, \<open>'right'\<close> and \<open>'down'\<close>; a \<open>CanScroll\<close> is a JavaScript
  object, that is a finite map from property names to values, and reading a property
  that is not there gives \<open>undefined\<close> (\<open>None\<close> below).
\<close>

datatype Direction = up | left | right | down

fun Direction_value :: "Direction \<Rightarrow> string" where
  "Direction_value up = ''up''"
| "Direction_value left = ''left''"
| "Direction_value right = ''right''"
| "Direction_value down = ''down''"

type_synonym CanScroll = "string \<rightharpoonup> bool"

text \<open>
  The interface \<open>Dispatch\<close> is the shape of an action handed to the reducer. Record
  fields carry the name of their record as a prefix (\<open>action.type\<close> is \<open>action_type\<close>,
  \<open>state.canScroll\<close> is \<open>state_canScroll\<close>, a property \<open>p\<close> of the context value is
  \<open>ctx_p\<close>), which leaves the source's names free for parameters and local values.
\<close>

record Dispatch =
  action_type :: string
  action_direction :: Direction
  action_canScroll :: bool

text \<open>The state \<open>{ canScroll: CanScroll }\<close> held by \<open>useReducer\<close>.\<close>

record OverflowState =
  state_canScroll :: CanScroll

text \<open>
  Several properties of the program are about the identity of the state object
  (\<open>===\<close>, \<open>Object.is\<close>), not about its contents. No object of the program is written to
  after it has been built, so an object is modelled as the address it was allocated at
  together with its contents, and two references are identical exactly when their
  addresses are equal. A function that may build a new object takes the next free
  address and returns the one to use afterwards.
\<close>

type_synonym addr = nat

datatype 'a obj = Obj (address: addr) (contents: 'a)

definition same_object :: "'a obj \<Rightarrow> 'a obj \<Rightarrow> bool" where
  "same_object x y = (address x = address y)"

abbreviation CHANGE :: "Direction \<Rightarrow> bool \<Rightarrow> Dispatch" where
  "CHANGE d v \<equiv> \<lparr>action_type = ''CHANGE'', action_direction = d, action_canScroll = v\<rparr>"

section \<open>The scroll state store\<close>

text \<open>
  \<open>reducer\<close> (lines 70 to 87). The \<open>switch\<close> has the single case \<open>'CHANGE'\<close>; every other
  action type falls through to the final \<open>return state\<close>. The comparison
  \<open>currentValue === action.canScroll\<close> is between a possibly undefined property and a
  boolean. The object literal of the second \<open>return\<close> is a new object: it gets the next
  free address. (The inner literal is a new object too; nothing ever compares its
  identity, so it is kept by value.)
\<close>

definition reducer :: "addr \<Rightarrow> OverflowState obj \<Rightarrow> Dispatch \<Rightarrow> OverflowState obj \<times> addr" where
  "reducer free state action =
     (if action_type action = ''CHANGE'' then
        (let currentValue =
               state_canScroll (contents state) (Direction_value (action_direction action))
         in if currentValue = Some (action_canScroll action) then (state, free)
            else (Obj free
                   ((contents state)\<lparr>state_canScroll :=
                      (state_canScroll (contents state))
                        (Direction_value (action_direction action) \<mapsto> action_canScroll action)\<rparr>),
                  Suc free))
      else (state, free))"

text \<open>\<open>getInitialState\<close> (lines 89 to 98) builds a new object on every call.\<close>

definition getInitialState :: "addr \<Rightarrow> OverflowState obj \<times> addr" where
  "getInitialState free =
     (Obj free \<lparr>state_canScroll = [''up'' \<mapsto> False, ''left'' \<mapsto> False,
                              ''right'' \<mapsto> False, ''down'' \<mapsto> False]\<rparr>,
      Suc free)"

section \<open>JavaScript values used by the components\<close>

text \<open>
  A run-time error of the program. The only one the components can raise is the
  \<open>TypeError\<close> of reading a property of \<open>undefined\<close>.
\<close>

datatype error = TypeError

text \<open>
  \<open>tolerance\<close> is a \<open>number | string\<close>. Numbers are modelled as reals: the value \<open>NaN\<close>
  is left out (no caller passes it as a length, and the platform never reports it as a
  size or a ratio), and \<open>-0\<close> is \<open>0\<close>.
\<close>

datatype number_or_string = Num real | Str string

text \<open>\<open>ToBoolean\<close>: a number is falsy when it is zero, a string when it is empty,
  and \<open>undefined\<close> is falsy.\<close>

fun truthy :: "number_or_string \<Rightarrow> bool" where
  "truthy (Num x) = (x \<noteq> 0)"
| "truthy (Str s) = (s \<noteq> [])"

fun ToBoolean :: "number_or_string option \<Rightarrow> bool" where
  "ToBoolean None = False"
| "ToBoolean (Some t) = truthy t"

text \<open>\<open>a || b\<close> gives \<open>a\<close> when \<open>a\<close> is truthy and \<open>b\<close> otherwise, on numbers and on
  possibly undefined booleans.\<close>

definition or_number :: "real \<Rightarrow> real \<Rightarrow> real" where
  "or_number a b = (if a \<noteq> 0 then a else b)"

definition or_boolean :: "bool option \<Rightarrow> bool option \<Rightarrow> bool option" where
  "or_boolean a b = (if a = Some True then a else b)"

section \<open>The shared context\<close>

text \<open>
  The three \<open>useRef\<close> cells of the components, and the DOM nodes React stores in them.
\<close>

datatype RefObject = viewportRef | contentRef | toleranceRef

datatype node = viewportNode | contentNode | toleranceNode

record Refs =
  viewport :: RefObject

text \<open>The function \<open>dispatch\<close> that \<open>useReducer\<close> hands out in a provider.\<close>

datatype dispatch_fn = ProviderDispatch

text \<open>
  \<open>OverflowContext\<close> (lines 33 to 41). The interface marks \<open>refs\<close> and \<open>state\<close> as
  required, but the default value given to \<open>createContext\<close> on line 43 is the empty
  object, so at run time every property may be missing.
\<close>

record OverflowContext =
  ctx_tolerance :: "number_or_string option"
  ctx_refs :: "Refs obj option"
  ctx_canScroll :: "CanScroll option"
  ctx_state :: "OverflowState obj option"
  ctx_dispatch :: "dispatch_fn option"

text \<open>\<open>const Context = React.createContext<OverflowContext>({})\<close> (line 43).\<close>

definition Context :: OverflowContext where
  "Context = \<lparr>ctx_tolerance = None, ctx_refs = None, ctx_canScroll = None,
                ctx_state = None, ctx_dispatch = None\<rparr>"

text \<open>
  \<open>useOverflow\<close> (lines 45 to 47) is \<open>useContext(Context)\<close>: the value of the nearest
  enclosing provider, or the default value when there is none. The argument is the
  value of the nearest provider, if any.
\<close>

definition useOverflow :: "OverflowContext option \<Rightarrow> OverflowContext" where
  "useOverflow provider = (case provider of None \<Rightarrow> Context | Some c \<Rightarrow> c)"

section \<open>The indicator evaluator\<close>

text \<open>
  The prop \<open>children\<close> is an element or a function; the function receives a
  \<open>boolean | CanScroll\<close> and the refs.
\<close>

datatype stateArg = Flag "bool option" | Scroll CanScroll

datatype 'e children = Element 'e | Function "stateArg \<Rightarrow> Refs obj option \<Rightarrow> 'e"

text \<open>
  \<open>isActive\<close> (lines 410 to 412). Every member of \<open>Direction\<close> is a non-empty string,
  hence truthy; a prop that was not supplied is \<open>undefined\<close>. \<open>||\<close> associates to the
  left.
\<close>

definition isActive :: "CanScroll \<Rightarrow> Direction option \<Rightarrow> bool option" where
  "isActive canScroll direction =
     (case direction of
        Some d \<Rightarrow> canScroll (Direction_value d)
      | None \<Rightarrow> or_boolean (or_boolean (or_boolean (canScroll ''up'') (canScroll ''left''))
                             (canScroll ''right''))
                 (canScroll ''down''))"

text \<open>
  \<open>OverflowIndicator\<close> (lines 407 to 423). \<open>const { canScroll } = state\<close> raises a
  \<open>TypeError\<close> when \<open>state\<close> is \<open>undefined\<close>. The result is the rendered children, or
  \<open>None\<close> for \<open>null\<close>.
\<close>

definition OverflowIndicator ::
  "OverflowContext option \<Rightarrow> 'e children \<Rightarrow> Direction option \<Rightarrow> error + 'e option" where
  "OverflowIndicator provider children direction =
     (let ctx = useOverflow provider in
      case ctx_state ctx of
        None \<Rightarrow> Inl TypeError
      | Some state \<Rightarrow>
          (let canScroll = state_canScroll (contents state);
               active = isActive canScroll direction
           in case children of
                Function f \<Rightarrow>
                  Inr (Some (f (case direction of Some d \<Rightarrow> Flag active | None \<Rightarrow> Scroll canScroll)
                               (ctx_refs ctx)))
              | Element e \<Rightarrow> Inr (if active = Some True then Some e else None)))"

section \<open>The provider\<close>

text \<open>
  \<open>Overflow\<close> (lines 134 to 185) is a function component; what it keeps between renders
  is kept by React's hooks. The model holds that memory in a record and follows the
  documented behaviour of the hooks:
  \<^item> \<open>useReducer(reducer, null, getInitialState)\<close> builds the state once, at mount;
    \<open>dispatch(action)\<close> queues the action, and the next render applies \<open>reducer\<close> to the
    current state and the queued actions in the order they were dispatched; when the
    result is the same object (\<open>Object.is\<close>) nothing is committed and no effect runs;
  \<^item> \<open>useMemo(..., [])\<close> builds the \<open>refs\<close> object once;
  \<^item> \<open>useEffect(f, deps)\<close> runs \<open>f\<close> after the first commit, and after a later commit
    when one of \<open>deps\<close> is not the same (\<open>Object.is\<close>) as at the previous commit.
  The program has no commit of its own: which dispatches are handled by the same render
  is decided by React. Dispatches made in the same tick are handled together and
  committed once (React 18 batches them, also outside event handlers); a dispatch that
  is alone in its tick is a batch of one. The model therefore takes a batch, the list of
  actions of one render, as the unit. The callback \<open>onStateChange\<close> is known by its
  identity only; what it does is outside the program, so the model records every call
  with its arguments in \<open>calls\<close>.
\<close>

type_synonym callback = nat

record Overflow_hooks =
  reducer_state :: "OverflowState obj"
  refs_memo :: "Refs obj"
  effect_deps :: "callback option \<times> addr \<times> addr"
  next_free :: addr
  calls :: "(callback \<times> OverflowState obj \<times> Refs obj) list"

text \<open>The body of the effect (lines 175 to 177).\<close>

definition onStateChange_effect :: "callback option \<Rightarrow> Overflow_hooks \<Rightarrow> Overflow_hooks" where
  "onStateChange_effect onStateChange h =
     (case onStateChange of
        None \<Rightarrow> h
      | Some f \<Rightarrow> h\<lparr>calls := calls h @ [(f, reducer_state h, refs_memo h)]\<rparr>)"

text \<open>The dependency list \<open>[onStateChange, refs, state]\<close> (line 178).\<close>

definition onStateChange_deps :: "callback option \<Rightarrow> Overflow_hooks \<Rightarrow> callback option \<times> addr \<times> addr" where
  "onStateChange_deps onStateChange h =
     (onStateChange, address (refs_memo h), address (reducer_state h))"

text \<open>The first render and commit of a provider, from the next free address.\<close>

definition Overflow_mount :: "callback option \<Rightarrow> addr \<Rightarrow> Overflow_hooks" where
  "Overflow_mount onStateChange a =
     (case getInitialState a of
        (s, a') \<Rightarrow>
          onStateChange_effect onStateChange
            \<lparr>reducer_state = s,
             refs_memo = Obj a' \<lparr>viewport = viewportRef\<rparr>,
             effect_deps = (onStateChange, a', address s),
             next_free = Suc a',
             calls = []\<rparr>)"

text \<open>A later render and commit: the effect runs when a dependency has changed.\<close>

definition Overflow_commit :: "callback option \<Rightarrow> Overflow_hooks \<Rightarrow> Overflow_hooks" where
  "Overflow_commit onStateChange h =
     (if onStateChange_deps onStateChange h = effect_deps h then h
      else onStateChange_effect onStateChange
             (h\<lparr>effect_deps := onStateChange_deps onStateChange h\<rparr>))"

text \<open>The reducer applied to a state and the queued actions of one render, in order.\<close>

fun reduce_queue :: "addr \<Rightarrow> OverflowState obj \<Rightarrow> Dispatch list \<Rightarrow> OverflowState obj \<times> addr" where
  "reduce_queue free state [] = (state, free)"
| "reduce_queue free state (action # queue) =
     (case reducer free state action of (state', free') \<Rightarrow> reduce_queue free' state' queue)"

text \<open>
  One batch on a mounted provider: the actions dispatched since the last render are
  reduced, and the result is committed unless it is the state object of the last
  commit.
\<close>

definition Overflow_batch :: "callback option \<Rightarrow> Dispatch list \<Rightarrow> Overflow_hooks \<Rightarrow> Overflow_hooks" where
  "Overflow_batch onStateChange queue h =
     (case reduce_queue (next_free h) (reducer_state h) queue of
        (s', a') \<Rightarrow>
          if same_object s' (reducer_state h) then h
          else Overflow_commit onStateChange (h\<lparr>reducer_state := s', next_free := a'\<rparr>))"

text \<open>\<open>dispatch(action)\<close> for an action that is alone in its batch.\<close>

definition Overflow_dispatch :: "callback option \<Rightarrow> Dispatch \<Rightarrow> Overflow_hooks \<Rightarrow> Overflow_hooks" where
  "Overflow_dispatch onStateChange action h = Overflow_batch onStateChange [action] h"

text \<open>A provider that is mounted and then handles a list of batches.\<close>

definition Overflow_batches :: "callback option \<Rightarrow> addr \<Rightarrow> Dispatch list list \<Rightarrow> Overflow_hooks" where
  "Overflow_batches onStateChange a batches =
     foldl (\<lambda>h queue. Overflow_batch onStateChange queue h)
           (Overflow_mount onStateChange a) batches"

text \<open>
  A provider that is mounted and then receives a list of actions, one after the other,
  each alone in its batch.
\<close>

definition Overflow_run :: "callback option \<Rightarrow> addr \<Rightarrow> Dispatch list \<Rightarrow> Overflow_hooks" where
  "Overflow_run onStateChange a actions =
     foldl (\<lambda>h action. Overflow_dispatch onStateChange action h)
           (Overflow_mount onStateChange a) actions"

text \<open>
  The context value of lines 164 to 172; the prop \<open>tolerance\<close> defaults to \<open>0\<close> when it
  is not supplied (line 138).
\<close>

definition Overflow_context :: "number_or_string option \<Rightarrow> Overflow_hooks \<Rightarrow> OverflowContext" where
  "Overflow_context tolerance h =
     \<lparr>ctx_tolerance = Some (case tolerance of None \<Rightarrow> Num 0 | Some t \<Rightarrow> t),
      ctx_refs = Some (refs_memo h),
      ctx_canScroll = None,
      ctx_state = Some (reducer_state h),
      ctx_dispatch = Some ProviderDispatch\<rparr>"

section \<open>The edge watchers\<close>

text \<open>
  What the program reads of an \<open>IntersectionObserverEntry\<close>: the size of the target's
  bounding box, the intersection ratio and the flag.
\<close>

record DOMRect =
  width :: real
  height :: real

record IntersectionObserverEntry =
  boundingClientRect :: DOMRect
  intersectionRatio :: real
  isIntersecting :: bool

text \<open>
  An \<open>IntersectionObserver\<close> as the program builds and uses it: the options it was
  created with, the direction its callback reports for, and the nodes it observes.
\<close>

record IntersectionObserver =
  observer_direction :: Direction
  observer_root :: "node option"
  observer_rootMargin :: string
  observer_threshold :: "real list"
  targets :: "node list"

definition observe :: "node \<Rightarrow> IntersectionObserver \<Rightarrow> IntersectionObserver" where
  "observe n ob = ob\<lparr>targets := (if n \<in> set (targets ob) then targets ob else targets ob @ [n])\<rparr>"

definition unobserve :: "node \<Rightarrow> IntersectionObserver \<Rightarrow> IntersectionObserver" where
  "unobserve n ob = ob\<lparr>targets := removeAll n (targets ob)\<rparr>"

definition disconnect :: "IntersectionObserver \<Rightarrow> IntersectionObserver" where
  "disconnect ob = ob\<lparr>targets := []\<rparr>"

text \<open>\<open>const threshold = [0, 1e-12]\<close> (line 216).\<close>

definition threshold :: "real list" where
  "threshold = [0, 1 / 10 ^ 12]"

text \<open>
  The callback given to each observer (lines 253 to 270), with the variables it closes
  over as parameters: the flag \<open>ignore\<close>, the context's \<open>dispatch\<close> and the observer's
  \<open>direction\<close>. The platform calls it with a non-empty list of entries and the callback
  reads the first one. The result is the action passed to \<open>dispatch\<close>, or \<open>None\<close> when
  nothing is dispatched: on the early return, and when \<open>dispatch\<close> is \<open>undefined\<close>
  (\<open>dispatch?.(...)\<close>). \<open>Boolean(w || h)\<close> is on numbers; the operands of \<open>&&\<close> are
  booleans.
\<close>

definition observer_callback ::
  "bool \<Rightarrow> dispatch_fn option \<Rightarrow> Direction \<Rightarrow> IntersectionObserverEntry \<Rightarrow> Dispatch option" where
  "observer_callback ignore dispatch direction entry =
     (if ignore then None
      else
        (let hasSize = (or_number (width (boundingClientRect entry))
                                  (height (boundingClientRect entry)) \<noteq> 0);
             canScroll = (hasSize \<and> intersectionRatio entry \<noteq> 0 \<and> isIntersecting entry)
         in case dispatch of
              None \<Rightarrow> None
            | Some f \<Rightarrow> Some \<lparr>action_type = ''CHANGE'', action_direction = direction,
                              action_canScroll = canScroll\<rparr>))"

text \<open>
  \<open>createObserver\<close> (lines 251 to 277). \<open>rootNode\<close> is the \<open>root\<close> of the source, the
  value of \<open>viewportRef.current\<close> when the effect runs.
\<close>

definition createObserver :: "node option \<Rightarrow> Direction \<Rightarrow> string \<Rightarrow> IntersectionObserver" where
  "createObserver rootNode direction rootMargin =
     \<lparr>observer_direction = direction, observer_root = rootNode,
      observer_rootMargin = rootMargin, observer_threshold = threshold, targets = []\<rparr>"

text \<open>
  What \<open>OverflowContent\<close> (lines 229 to 354) keeps between renders: the variable
  \<open>ignore\<close> of the first effect, the \<open>dispatch\<close> the callbacks were built with, and the
  four observers (the object \<open>observers\<close>, also stored in \<open>observersRef.current\<close>).
\<close>

record OverflowContent_hooks =
  ignore :: bool
  callback_dispatch :: "dispatch_fn option"
  observers :: "Direction \<Rightarrow> IntersectionObserver"

text \<open>The first effect (lines 246 to 286) and its cleanup (lines 288 to 294).\<close>

definition watchers_effect :: "dispatch_fn option \<Rightarrow> node option \<Rightarrow> OverflowContent_hooks" where
  "watchers_effect dispatch rootNode =
     \<lparr>ignore = False,
      callback_dispatch = dispatch,
      observers = (\<lambda>d. case d of
          up \<Rightarrow> createObserver rootNode up ''100% 0px -100% 0px''
        | left \<Rightarrow> createObserver rootNode left ''0px -100% 0px 100%''
        | right \<Rightarrow> createObserver rootNode right ''0px 100% 0px -100%''
        | down \<Rightarrow> createObserver rootNode down ''-100% 0px 100% 0px'')\<rparr>"

definition watchers_cleanup :: "OverflowContent_hooks \<Rightarrow> OverflowContent_hooks" where
  "watchers_cleanup h =
     h\<lparr>ignore := True,
       observers := (observers h)
         (up := disconnect (observers h up),
          left := disconnect (observers h left),
          right := disconnect (observers h right),
          down := disconnect (observers h down))\<rparr>"

text \<open>The second effect (lines 297 to 306) and its cleanup (lines 308 to 315).\<close>

definition observe_effect :: "node option \<Rightarrow> OverflowContent_hooks \<Rightarrow> OverflowContent_hooks" where
  "observe_effect watchNode h =
     (case watchNode of
        None \<Rightarrow> h
      | Some n \<Rightarrow>
          h\<lparr>observers := (observers h)
              (up := observe n (observers h up),
               left := observe n (observers h left),
               right := observe n (observers h right),
               down := observe n (observers h down))\<rparr>)"

definition observe_cleanup :: "node option \<Rightarrow> OverflowContent_hooks \<Rightarrow> OverflowContent_hooks" where
  "observe_cleanup watchNode h =
     (case watchNode of
        None \<Rightarrow> h
      | Some n \<Rightarrow>
          h\<lparr>observers := (observers h)
              (up := unobserve n (observers h up),
               left := unobserve n (observers h left),
               right := unobserve n (observers h right),
               down := unobserve n (observers h down))\<rparr>)"

section \<open>The tolerance adapter\<close>

text \<open>\<open>const watchRef = tolerance ? toleranceRef : contentRef\<close> (line 238).\<close>

definition watchRef :: "number_or_string option \<Rightarrow> RefObject" where
  "watchRef tolerance = (if ToBoolean tolerance then toleranceRef else contentRef)"

text \<open>
  \<open>toleranceElement\<close> (lines 325 to 344): an element with its attribute, its \<open>ref\<close> and
  its inline style, or \<open>None\<close> for \<open>null\<close>.
\<close>

record element =
  attribute :: string
  ref :: RefObject
  style :: "(string \<times> number_or_string) list"

definition toleranceElement :: "number_or_string option \<Rightarrow> element option" where
  "toleranceElement tolerance =
     (case tolerance of
        None \<Rightarrow> None
      | Some t \<Rightarrow>
          if truthy t then
            Some \<lparr>attribute = ''data-overflow-tolerance'',
                  ref = toleranceRef,
                  style = [(''position'', Str ''absolute''),
                           (''top'', t),
                           (''left'', t),
                           (''right'', t),
                           (''bottom'', t),
                           (''background'', Str ''transparent''),
                           (''pointerEvents'', Str ''none''),
                           (''zIndex'', Num (- 1))]\<rparr>
          else None)"

text \<open>
  The node React has stored in each ref once the render of lines 346 to 353 is
  committed: the viewport and the content are always rendered, the tolerance element
  only when \<open>toleranceElement\<close> is not \<open>null\<close>.
\<close>

definition current :: "number_or_string option \<Rightarrow> RefObject \<Rightarrow> node option" where
  "current tolerance r =
     (case r of
        viewportRef \<Rightarrow> Some viewportNode
      | contentRef \<Rightarrow> Some contentNode
      | toleranceRef \<Rightarrow>
          (case toleranceElement tolerance of None \<Rightarrow> None | Some e \<Rightarrow> Some toleranceNode))"

text \<open>
  Mounting \<open>OverflowContent\<close>: it reads the context (line 234), takes \<open>refs.viewport\<close>
  (line 235, a \<open>TypeError\<close> when \<open>refs\<close> is \<open>undefined\<close>), renders, and then runs its two
  effects in order.
\<close>

definition OverflowContent_mount :: "OverflowContext option \<Rightarrow> error + OverflowContent_hooks" where
  "OverflowContent_mount provider =
     (let ctx = useOverflow provider;
          dispatch = ctx_dispatch ctx;
          tolerance = ctx_tolerance ctx
      in case ctx_refs ctx of
           None \<Rightarrow> Inl TypeError
         | Some refs \<Rightarrow>
             Inr (observe_effect (current tolerance (watchRef tolerance))
                    (watchers_effect dispatch (current tolerance (viewport (contents refs))))))"

text \<open>Unmounting runs the cleanups of the two effects in order.\<close>

definition OverflowContent_unmount ::
  "number_or_string option \<Rightarrow> OverflowContent_hooks \<Rightarrow> OverflowContent_hooks" where
  "OverflowContent_unmount tolerance h =
     observe_cleanup (current tolerance (watchRef tolerance)) (watchers_cleanup h)"

section \<open>A provider with its content\<close>

text \<open>
  A provider together with the \<open>Overflow.Content\<close> inside it. \<open>report\<close> is the platform
  calling the callback of the observer for a direction with an entry, for a report that
  is alone in its tick: the action the callback dispatches, if any, goes to the provider
  as a batch of one.
\<close>

record overflow =
  onStateChange_prop :: "callback option"
  provider :: Overflow_hooks
  content :: OverflowContent_hooks

definition report :: "Direction \<Rightarrow> IntersectionObserverEntry \<Rightarrow> overflow \<Rightarrow> overflow" where
  "report d entry sys =
     (case observer_callback (ignore (content sys)) (callback_dispatch (content sys))
             (observer_direction (observers (content sys) d)) entry of
        None \<Rightarrow> sys
      | Some action \<Rightarrow>
          sys\<lparr>provider := Overflow_dispatch (onStateChange_prop sys) action (provider sys)\<rparr>)"

definition teardown :: "overflow \<Rightarrow> overflow" where
  "teardown sys = sys\<lparr>content := watchers_cleanup (content sys)\<rparr>"

section \<open>Root margins\<close>

text \<open>
  The platform reads \<open>rootMargin\<close> like the CSS \<open>margin\<close> shorthand: one to four lengths
  separated by spaces, each a whole number of pixels or a percentage, for the top, right,
  bottom and left sides in that order; a positive length moves that side of the root's
  box outwards and a negative one inwards.
\<close>

datatype length = Px int | Percent int

record margin =
  margin_top :: length
  margin_right :: length
  margin_bottom :: length
  margin_left :: length

definition is_digit :: "char \<Rightarrow> bool" where
  "is_digit c = (48 \<le> (of_char c :: nat) \<and> (of_char c :: nat) \<le> 57)"

fun parse_digits :: "nat \<Rightarrow> string \<Rightarrow> nat \<times> string" where
  "parse_digits acc [] = (acc, [])"
| "parse_digits acc (c # cs) =
     (if is_digit c then parse_digits (10 * acc + (of_char c - 48)) cs else (acc, c # cs))"

definition parse_unsigned :: "string \<Rightarrow> (nat \<times> string) option" where
  "parse_unsigned s =
     (case s of
        [] \<Rightarrow> None
      | c # cs \<Rightarrow> if is_digit c then Some (parse_digits 0 s) else None)"

definition parse_unit :: "int \<Rightarrow> string \<Rightarrow> length option" where
  "parse_unit n u =
     (if u = ''px'' then Some (Px n) else if u = ''%'' then Some (Percent n) else None)"

definition parse_length :: "string \<Rightarrow> length option" where
  "parse_length s =
     (case s of
        [] \<Rightarrow> None
      | c # cs \<Rightarrow>
          if c = CHR ''-'' then
            (case parse_unsigned cs of None \<Rightarrow> None | Some (n, u) \<Rightarrow> parse_unit (- int n) u)
          else
            (case parse_unsigned s of None \<Rightarrow> None | Some (n, u) \<Rightarrow> parse_unit (int n) u))"

fun tokens :: "string \<Rightarrow> string \<Rightarrow> string list" where
  "tokens w [] = (if w = [] then [] else [w])"
| "tokens w (c # cs) =
     (if c = CHR '' '' then (if w = [] then tokens [] cs else w # tokens [] cs)
      else tokens (w @ [c]) cs)"

definition parse_rootMargin :: "string \<Rightarrow> margin option" where
  "parse_rootMargin s =
     (case map parse_length (tokens [] s) of
        [Some a] \<Rightarrow>
          Some \<lparr>margin_top = a, margin_right = a, margin_bottom = a, margin_left = a\<rparr>
      | [Some a, Some b] \<Rightarrow>
          Some \<lparr>margin_top = a, margin_right = b, margin_bottom = a, margin_left = b\<rparr>
      | [Some a, Some b, Some c] \<Rightarrow>
          Some \<lparr>margin_top = a, margin_right = b, margin_bottom = c, margin_left = b\<rparr>
      | [Some a, Some b, Some c, Some d] \<Rightarrow>
          Some \<lparr>margin_top = a, margin_right = b, margin_bottom = c, margin_left = d\<rparr>
      | _ \<Rightarrow> None)"

text \<open>The side of the root's box that faces a direction, and the direction facing it.\<close>

fun side :: "Direction \<Rightarrow> margin \<Rightarrow> length" where
  "side up m = margin_top m"
| "side left m = margin_left m"
| "side right m = margin_right m"
| "side down m = margin_bottom m"

fun opposite :: "Direction \<Rightarrow> Direction" where
  "opposite up = down"
| "opposite left = right"
| "opposite right = left"
| "opposite down = up"

fun zero_offset :: "length \<Rightarrow> bool" where
  "zero_offset (Px n) = (n = 0)"
| "zero_offset (Percent n) = (n = 0)"

text \<open>The margin vector of the watcher for a direction, as the platform reads it.\<close>

definition watcher_margin :: "Direction \<Rightarrow> margin option" where
  "watcher_margin d =
     parse_rootMargin (observer_rootMargin (observers (watchers_effect None None) d))"

section \<open>Reachable provider states\<close>

text \<open>
  What holds of a provider after its mount and after every dispatch: the effect last ran
  with the current dependencies, the state object was allocated before the next free
  address, and the \<open>canScroll\<close> object has the four keys.
\<close>

definition provider_inv :: "callback option \<Rightarrow> Overflow_hooks \<Rightarrow> bool" where
  "provider_inv onStateChange h \<longleftrightarrow>
     effect_deps h = onStateChange_deps onStateChange h \<and>
     address (reducer_state h) < next_free h \<and>
     dom (state_canScroll (contents (reducer_state h))) = {''up'', ''left'', ''right'', ''down''}"

section \<open>The store: identity and independence\<close>

lemma Direction_value_inj: "Direction_value d = Direction_value e \<longleftrightarrow> d = e"
  by (cases d; cases e) simp_all

lemma Direction_value_mem: "Direction_value d \<in> {''up'', ''left'', ''right'', ''down''}"
  by (cases d) simp_all

lemma reducer_fresh_object:
  "state_canScroll (contents s) (Direction_value d) \<noteq> Some v \<Longrightarrow>
   reducer n s (CHANGE d v) =
     (Obj n ((contents s)\<lparr>state_canScroll :=
                (state_canScroll (contents s))(Direction_value d \<mapsto> v)\<rparr>), Suc n)"
  by (simp add: reducer_def)

lemma reducer_other_type: "action_type a \<noteq> ''CHANGE'' \<Longrightarrow> reducer n s a = (s, n)"
  by (simp add: reducer_def)

lemma reducer_dom:
  "dom (state_canScroll (contents (fst (reducer n s a)))) =
     (if action_type a = ''CHANGE''
      then insert (Direction_value (action_direction a)) (dom (state_canScroll (contents s)))
      else dom (state_canScroll (contents s)))"
  by (auto simp add: reducer_def Let_def)

lemma reducer_address:
  "address s < n \<Longrightarrow> address (fst (reducer n s a)) < snd (reducer n s a)"
  by (simp add: reducer_def Let_def)

text \<open>
  On an object allocated before the next free address, the identity test tells apart
  the two ways the reducer returns: its result is the same object exactly when it
  returned its argument.
\<close>

lemma reducer_same_object_iff:
  "address s < n \<Longrightarrow> same_object (fst (reducer n s a)) s \<longleftrightarrow> reducer n s a = (s, n)"
  by (auto simp add: reducer_def Let_def same_object_def)

text \<open>
  Claim C2. When a \<open>CHANGE\<close> action carries the boolean that the state already stores
  for its direction, the reducer returns the very object it was given: the same
  address and contents, and no new object is allocated.
\<close>

theorem reducer_CHANGE_same_value_same_reference:
  assumes "state_canScroll (contents s) (Direction_value d) = Some v"
  shows "reducer n s (CHANGE d v) = (s, n) \<and> same_object (fst (reducer n s (CHANGE d v))) s"
  using assms by (simp add: reducer_def same_object_def)

theorem reducer_CHANGE_same_value_same_reference_witness:
  "state_canScroll (contents (fst (getInitialState 0))) (Direction_value up) = Some False \<and>
   reducer 1 (fst (getInitialState 0)) (CHANGE up False) = (fst (getInitialState 0), 1) \<and>
   same_object (fst (reducer 1 (fst (getInitialState 0)) (CHANGE up False)))
               (fst (getInitialState 0))"
proof -
  have stored: "state_canScroll (contents (fst (getInitialState 0))) (Direction_value up) = Some False"
    by (simp add: getInitialState_def)
  show ?thesis
    using stored reducer_CHANGE_same_value_same_reference [OF stored, of 1] by blast
qed

text \<open>
  Claim C3. The state that the reducer returns for a \<open>CHANGE\<close> of direction \<open>d\<close> to \<open>v\<close>
  stores, for every direction \<open>e\<close> other than \<open>d\<close>, exactly what the given state stored
  for \<open>e\<close>.
\<close>

theorem reducer_CHANGE_keeps_other_directions:
  assumes "e \<noteq> d"
  shows "state_canScroll (contents (fst (reducer n s (CHANGE d v)))) (Direction_value e) =
         state_canScroll (contents s) (Direction_value e)"
  using assms by (simp add: reducer_def Let_def Direction_value_inj)

theorem reducer_CHANGE_keeps_other_directions_witness:
  "down \<noteq> up \<and>
   state_canScroll (contents (fst (reducer 1 (fst (getInitialState 0)) (CHANGE up True))))
     (Direction_value down) = Some False"
proof -
  have other: "down \<noteq> up" by simp
  show ?thesis
    using other
      reducer_CHANGE_keeps_other_directions [OF other, of 1 "fst (getInitialState 0)" True]
    by (simp add: getInitialState_def)
qed

section \<open>The provider: invariant, shape of the state, and the callback\<close>

lemma mount_inv: "provider_inv onStateChange (Overflow_mount onStateChange a)"
  by (auto simp add: provider_inv_def Overflow_mount_def getInitialState_def
      onStateChange_effect_def onStateChange_deps_def split: option.splits)

lemma commit_fields:
  "reducer_state (Overflow_commit onStateChange h) = reducer_state h"
  "next_free (Overflow_commit onStateChange h) = next_free h"
  "refs_memo (Overflow_commit onStateChange h) = refs_memo h"
  "effect_deps (Overflow_commit onStateChange h) = onStateChange_deps onStateChange h"
  by (auto simp add: Overflow_commit_def onStateChange_effect_def onStateChange_deps_def
      split: option.splits)

lemma reduce_queue_address:
  "address s < n \<Longrightarrow> address (fst (reduce_queue n s q)) < snd (reduce_queue n s q)"
proof (induction q arbitrary: n s)
  case Nil
  then show ?case by simp
next
  case (Cons x q)
  obtain s' n' where r: "reducer n s x = (s', n')"
    by (cases "reducer n s x")
  have "address s' < n'"
    using reducer_address [of s n x] Cons.prems r by simp
  then show ?case using Cons.IH [of s' n'] r by simp
qed

lemma reduce_queue_dom:
  "dom (state_canScroll (contents s)) = {''up'', ''left'', ''right'', ''down''} \<Longrightarrow>
   dom (state_canScroll (contents (fst (reduce_queue n s q)))) =
     {''up'', ''left'', ''right'', ''down''}"
proof (induction q arbitrary: n s)
  case Nil
  then show ?case by simp
next
  case (Cons x q)
  obtain s' n' where r: "reducer n s x = (s', n')"
    by (cases "reducer n s x")
  have "dom (state_canScroll (contents s')) = {''up'', ''left'', ''right'', ''down''}"
    using reducer_dom [of n s x] Cons.prems r Direction_value_mem [of "action_direction x"]
    by (auto simp del: insert_iff)
  then show ?case using Cons.IH [of s' n'] r by simp
qed

text \<open>
  Addresses only grow along a queue, so the result of a queue is the object it started
  from exactly when every action of the queue was a no-op on it.
\<close>

lemma reduce_queue_address_mono:
  "address s < n \<Longrightarrow> address s \<le> address (fst (reduce_queue n s q))"
proof (induction q arbitrary: n s)
  case Nil
  then show ?case by simp
next
  case (Cons x q)
  obtain s' n' where r: "reducer n s x = (s', n')"
    by (cases "reducer n s x")
  have "address s' < n'"
    using reducer_address [of s n x] Cons.prems r by simp
  moreover have "address s \<le> address s'"
    using Cons.prems r by (auto simp add: reducer_def Let_def split: if_splits)
  ultimately show ?case using Cons.IH [of s' n'] r by simp
qed

lemma reduce_queue_same_object_iff:
  "address s < n \<Longrightarrow>
   same_object (fst (reduce_queue n s q)) s \<longleftrightarrow>
   list_all (\<lambda>action. reducer n s action = (s, n)) q"
proof (induction q)
  case Nil
  then show ?case by (simp add: same_object_def)
next
  case (Cons x q)
  show ?case
  proof (cases "reducer n s x = (s, n)")
    case True
    then show ?thesis using Cons by simp
  next
    case False
    then obtain c where fresh: "reducer n s x = (Obj n c, Suc n)"
      by (auto simp add: reducer_def Let_def split: if_splits)
    have "n \<le> address (fst (reduce_queue (Suc n) (Obj n c) q))"
      using reduce_queue_address_mono [of "Obj n c" "Suc n" q] by simp
    then have "\<not> same_object (fst (reduce_queue n s (x # q))) s"
      using fresh Cons.prems by (simp add: same_object_def)
    then show ?thesis using False by simp
  qed
qed

lemma Overflow_dispatch_alone:
  "Overflow_dispatch onStateChange action h =
     (case reducer (next_free h) (reducer_state h) action of
        (s', a') \<Rightarrow>
          if same_object s' (reducer_state h) then h
          else Overflow_commit onStateChange (h\<lparr>reducer_state := s', next_free := a'\<rparr>))"
  by (simp add: Overflow_dispatch_def Overflow_batch_def split: prod.splits)

lemma batch_inv:
  assumes inv: "provider_inv onStateChange h"
  shows "provider_inv onStateChange (Overflow_batch onStateChange q h)"
proof -
  obtain s' n' where r: "reduce_queue (next_free h) (reducer_state h) q = (s', n')"
    by (cases "reduce_queue (next_free h) (reducer_state h) q")
  show ?thesis
  proof (cases "same_object s' (reducer_state h)")
    case True
    then show ?thesis using inv r by (simp add: Overflow_batch_def)
  next
    case False
    have allocated: "address s' < n'"
      using reduce_queue_address [of "reducer_state h" "next_free h" q] inv r
      by (simp add: provider_inv_def)
    have keys: "dom (state_canScroll (contents s')) = {''up'', ''left'', ''right'', ''down''}"
      using reduce_queue_dom [of "reducer_state h" "next_free h" q] inv r
      by (simp add: provider_inv_def)
    show ?thesis using False r allocated keys
      by (simp add: Overflow_batch_def provider_inv_def commit_fields onStateChange_deps_def)
  qed
qed

lemma dispatch_inv:
  assumes inv: "provider_inv onStateChange h"
  shows "provider_inv onStateChange (Overflow_dispatch onStateChange a h)"
  using batch_inv [OF inv] by (simp add: Overflow_dispatch_def)

lemma batches_snoc:
  "Overflow_batches onStateChange a (qs @ [q]) =
   Overflow_batch onStateChange q (Overflow_batches onStateChange a qs)"
  by (simp add: Overflow_batches_def)

lemma batches_inv: "provider_inv onStateChange (Overflow_batches onStateChange a qs)"
proof (induction qs rule: rev_induct)
  case Nil
  then show ?case by (simp add: Overflow_batches_def mount_inv)
next
  case (snoc q qs)
  then show ?case by (simp add: batches_snoc batch_inv)
qed

text \<open>Actions that are each alone in their batch are a run of batches of one.\<close>

lemma run_as_batches:
  "Overflow_run onStateChange a xs = Overflow_batches onStateChange a (map (\<lambda>x. [x]) xs)"
proof (induction xs rule: rev_induct)
  case Nil
  then show ?case by (simp add: Overflow_run_def Overflow_batches_def)
next
  case (snoc x xs)
  then show ?case by (simp add: Overflow_run_def Overflow_batches_def Overflow_dispatch_def)
qed

lemma run_snoc:
  "Overflow_run onStateChange a (xs @ [x]) =
   Overflow_dispatch onStateChange x (Overflow_run onStateChange a xs)"
  by (simp add: Overflow_run_def)

lemma run_inv: "provider_inv onStateChange (Overflow_run onStateChange a xs)"
proof (induction xs rule: rev_induct)
  case Nil
  then show ?case by (simp add: Overflow_run_def mount_inv)
next
  case (snoc x xs)
  then show ?case by (simp add: run_snoc dispatch_inv)
qed

text \<open>
  In a reachable provider, \<open>dispatch\<close> bails out exactly when the reducer returned the
  state it was given.
\<close>

lemma run_same_object_iff:
  "same_object (fst (reducer (next_free (Overflow_run onStateChange a xs))
                             (reducer_state (Overflow_run onStateChange a xs)) action))
               (reducer_state (Overflow_run onStateChange a xs)) \<longleftrightarrow>
   reducer (next_free (Overflow_run onStateChange a xs))
           (reducer_state (Overflow_run onStateChange a xs)) action =
     (reducer_state (Overflow_run onStateChange a xs), next_free (Overflow_run onStateChange a xs))"
  using run_inv [of onStateChange a xs] by (simp add: provider_inv_def reducer_same_object_iff)

lemma batch_calls:
  assumes "provider_inv (Some f) h"
  shows "calls (Overflow_batch (Some f) q h) =
     (let s' = fst (reduce_queue (next_free h) (reducer_state h) q)
      in if same_object s' (reducer_state h) then calls h else calls h @ [(f, s', refs_memo h)])"
proof -
  obtain s' n' where r: "reduce_queue (next_free h) (reducer_state h) q = (s', n')"
    by (cases "reduce_queue (next_free h) (reducer_state h) q")
  show ?thesis
  proof (cases "same_object s' (reducer_state h)")
    case True
    then show ?thesis using r by (simp add: Overflow_batch_def)
  next
    case False
    then have "onStateChange_deps (Some f) (h\<lparr>reducer_state := s', next_free := n'\<rparr>) \<noteq> effect_deps h"
      using assms by (simp add: provider_inv_def onStateChange_deps_def same_object_def)
    then show ?thesis using False r
      by (simp add: Overflow_batch_def Overflow_commit_def onStateChange_effect_def)
  qed
qed

lemma dispatch_calls:
  assumes "provider_inv (Some f) h"
  shows "calls (Overflow_dispatch (Some f) a h) =
     (let s' = fst (reducer (next_free h) (reducer_state h) a)
      in if same_object s' (reducer_state h) then calls h else calls h @ [(f, s', refs_memo h)])"
  using batch_calls [OF assms, of "[a]"]
  by (simp add: Overflow_dispatch_def split: prod.splits)

text \<open>
  Claim C9. A provider starts from the state in which the four directions are false; after
  any finite sequence of \<open>CHANGE\<close> actions, each given by its direction and its boolean,
  the keys of the state's \<open>canScroll\<close> object are exactly \<open>up\<close>, \<open>left\<close>, \<open>right\<close> and
  \<open>down\<close>. Each key is bound to a boolean: none is missing or undefined and there is no
  other key.
\<close>

theorem canScroll_keeps_four_boolean_entries:
  "state_canScroll (contents (fst (getInitialState a))) =
     [''up'' \<mapsto> False, ''left'' \<mapsto> False, ''right'' \<mapsto> False, ''down'' \<mapsto> False] \<and>
   reducer_state (Overflow_run onStateChange a []) = fst (getInitialState a) \<and>
   dom (state_canScroll (contents (reducer_state
          (Overflow_run onStateChange a (map (\<lambda>(d, v). CHANGE d v) changes))))) =
     {''up'', ''left'', ''right'', ''down''}"
proof -
  have "reducer_state (Overflow_run onStateChange a []) = fst (getInitialState a)"
    by (simp add: Overflow_run_def Overflow_mount_def getInitialState_def
        onStateChange_effect_def split: option.splits)
  moreover have "state_canScroll (contents (fst (getInitialState a))) =
     [''up'' \<mapsto> False, ''left'' \<mapsto> False, ''right'' \<mapsto> False, ''down'' \<mapsto> False]"
    by (simp add: getInitialState_def)
  ultimately show ?thesis
    using run_inv [of onStateChange a "map (\<lambda>(d, v). CHANGE d v) changes"]
    by (simp add: provider_inv_def)
qed

theorem canScroll_keeps_four_boolean_entries_witness:
  "dom (state_canScroll (contents (reducer_state
          (Overflow_run None 0
             (map (\<lambda>(d, v). CHANGE d v) [(down, True), (left, True), (down, False)]))))) =
     {''up'', ''left'', ''right'', ''down''} \<and>
   state_canScroll (contents (reducer_state
          (Overflow_run None 0
             (map (\<lambda>(d, v). CHANGE d v) [(down, True), (left, True), (down, False)])))) =
     [''up'' \<mapsto> False, ''left'' \<mapsto> True, ''right'' \<mapsto> False, ''down'' \<mapsto> False]"
proof -
  have "state_canScroll (contents (reducer_state
          (Overflow_run None 0
             (map (\<lambda>(d, v). CHANGE d v) [(down, True), (left, True), (down, False)])))) =
     [''up'' \<mapsto> False, ''left'' \<mapsto> True, ''right'' \<mapsto> False, ''down'' \<mapsto> False]"
    by (simp add: Overflow_run_def Overflow_mount_def getInitialState_def
        onStateChange_effect_def reducer_def same_object_def Let_def Overflow_dispatch_alone
        Overflow_commit_def onStateChange_deps_def)
      (auto simp add: fun_eq_iff)
  then show ?thesis
    using canScroll_keeps_four_boolean_entries
      [of 0 None "[(down, True), (left, True), (down, False)]"]
    by blast
qed

text \<open>
  Claim C6, as the program has it. With a callback \<open>f\<close> supplied as \<open>onStateChange\<close>: the
  commit at mount calls \<open>f\<close> once, with the initial state and the refs. In a provider
  reached from mount by any batches, a batch whose result is another state object than
  the one of the last commit calls \<open>f\<close> exactly once more, with the state at the end of
  the batch and the refs, however many dispatches of the batch the reducer accepted;
  a batch whose result is the same state object calls nothing, and that is the case
  exactly when every dispatch of the batch was a no-op. For a dispatch that is alone in
  its batch this is one call when the reducer returns another state object and none when
  it returns the same one.
\<close>

theorem onStateChange_called_once_per_changed_commit:
  "calls (Overflow_mount (Some f) a) =
      [(f, fst (getInitialState a), Obj (Suc a) \<lparr>viewport = viewportRef\<rparr>)] \<and>
   calls (Overflow_batch (Some f) queue (Overflow_batches (Some f) a batches)) =
     (let h = Overflow_batches (Some f) a batches;
          s' = fst (reduce_queue (next_free h) (reducer_state h) queue)
      in if same_object s' (reducer_state h) then calls h
         else calls h @ [(f, s', refs_memo h)]) \<and>
   (let h = Overflow_batches (Some f) a batches
    in same_object (fst (reduce_queue (next_free h) (reducer_state h) queue)) (reducer_state h) =
       list_all (\<lambda>action. reducer (next_free h) (reducer_state h) action =
                             (reducer_state h, next_free h)) queue) \<and>
   calls (Overflow_dispatch (Some f) action (Overflow_batches (Some f) a batches)) =
     (let h = Overflow_batches (Some f) a batches;
          s' = fst (reducer (next_free h) (reducer_state h) action)
      in if same_object s' (reducer_state h) then calls h
         else calls h @ [(f, s', refs_memo h)])"
proof -
  let ?h = "Overflow_batches (Some f) a batches"
  have inv: "provider_inv (Some f) ?h"
    by (rule batches_inv)
  have mount: "calls (Overflow_mount (Some f) a) =
      [(f, fst (getInitialState a), Obj (Suc a) \<lparr>viewport = viewportRef\<rparr>)]"
    by (simp add: Overflow_mount_def getInitialState_def onStateChange_effect_def)
  have noop: "same_object (fst (reduce_queue (next_free ?h) (reducer_state ?h) queue))
                (reducer_state ?h) =
       list_all (\<lambda>action. reducer (next_free ?h) (reducer_state ?h) action =
                             (reducer_state ?h, next_free ?h)) queue"
    using inv reduce_queue_same_object_iff [of "reducer_state ?h" "next_free ?h" queue]
    by (simp add: provider_inv_def)
  show ?thesis
    using mount noop batch_calls [OF inv, of queue] dispatch_calls [OF inv, of action]
    by (simp add: Let_def)
qed

theorem onStateChange_called_once_per_changed_commit_witness:
  "calls (Overflow_batch (Some 7) [CHANGE up True, CHANGE up True, CHANGE left True]
            (Overflow_batches (Some 7) 0 [])) =
     [(7, fst (getInitialState 0), Obj 1 \<lparr>viewport = viewportRef\<rparr>),
      (7, Obj 3 \<lparr>state_canScroll = [''up'' \<mapsto> True, ''left'' \<mapsto> True,
                                      ''right'' \<mapsto> False, ''down'' \<mapsto> False]\<rparr>,
          Obj 1 \<lparr>viewport = viewportRef\<rparr>)] \<and>
   calls (Overflow_batch (Some 7) [CHANGE up False, CHANGE left False]
            (Overflow_batches (Some 7) 0 [])) =
     [(7, fst (getInitialState 0), Obj 1 \<lparr>viewport = viewportRef\<rparr>)] \<and>
   calls (Overflow_dispatch (Some 7) (CHANGE down True) (Overflow_batches (Some 7) 0 [])) =
     [(7, fst (getInitialState 0), Obj 1 \<lparr>viewport = viewportRef\<rparr>),
      (7, Obj 2 \<lparr>state_canScroll = [''up'' \<mapsto> False, ''left'' \<mapsto> False,
                                      ''right'' \<mapsto> False, ''down'' \<mapsto> True]\<rparr>,
          Obj 1 \<lparr>viewport = viewportRef\<rparr>)] \<and>
   calls (Overflow_dispatch (Some 7) (CHANGE down False) (Overflow_batches (Some 7) 0 [])) =
     [(7, fst (getInitialState 0), Obj 1 \<lparr>viewport = viewportRef\<rparr>)]"
proof -
  have maps:
    "[''up'' \<mapsto> True, ''left'' \<mapsto> False, ''right'' \<mapsto> False, ''down'' \<mapsto> False, ''left'' \<mapsto> True] =
     [''up'' \<mapsto> True, ''left'' \<mapsto> True, ''right'' \<mapsto> False, ''down'' \<mapsto> False]"
    "[''up'' \<mapsto> False, ''left'' \<mapsto> False, ''right'' \<mapsto> False, ''down'' \<mapsto> False, ''up'' \<mapsto> True] =
     [''up'' \<mapsto> True, ''left'' \<mapsto> False, ''right'' \<mapsto> False, ''down'' \<mapsto> False]"
    by (auto simp add: fun_eq_iff)
  show ?thesis
    using
      onStateChange_called_once_per_changed_commit
        [of 7 0 "[CHANGE up True, CHANGE up True, CHANGE left True]" "[]" "CHANGE down True"]
      onStateChange_called_once_per_changed_commit
        [of 7 0 "[CHANGE up False, CHANGE left False]" "[]" "CHANGE down False"]
    by (simp add: Overflow_batches_def Overflow_mount_def getInitialState_def
        onStateChange_effect_def reducer_def same_object_def Let_def maps)
qed

text \<open>
  The claim as the specification words it fails when two dispatches that the reducer
  both accepts are handled in the same batch, as two reports of the same tick are: the
  reducer returns a new state object for \<open>up\<close> and another one for \<open>left\<close>, and after the
  call at mount the callback is called once, with the second of them. It is not called
  with the state after the first accepted update.
\<close>

theorem two_accepted_dispatches_in_one_batch_one_call:
  "\<not> same_object (fst (reducer 2 (fst (getInitialState 0)) (CHANGE up True)))
                  (fst (getInitialState 0)) \<and>
   \<not> same_object
       (fst (reducer 3 (fst (reducer 2 (fst (getInitialState 0)) (CHANGE up True)))
                       (CHANGE left True)))
       (fst (reducer 2 (fst (getInitialState 0)) (CHANGE up True))) \<and>
   calls (Overflow_batch (Some 7) [CHANGE up True, CHANGE left True]
            (Overflow_mount (Some 7) 0)) =
     [(7, fst (getInitialState 0), Obj 1 \<lparr>viewport = viewportRef\<rparr>),
      (7, fst (reducer 3 (fst (reducer 2 (fst (getInitialState 0)) (CHANGE up True)))
                         (CHANGE left True)),
          Obj 1 \<lparr>viewport = viewportRef\<rparr>)] \<and>
   length (calls (Overflow_batch (Some 7) [CHANGE up True, CHANGE left True]
                    (Overflow_mount (Some 7) 0))) = 2"
  by (simp add: Overflow_batch_def Overflow_mount_def Overflow_commit_def getInitialState_def
      onStateChange_effect_def onStateChange_deps_def reducer_def same_object_def Let_def)

text \<open>
  A run of four dispatches, each alone in its batch, on a provider with callback \<open>7\<close>:
  the second repeats the first and the third repeats what the state already holds, so
  the callback is called at mount, after the first dispatch and after the fourth, each
  time with a new state object. The same four dispatches in one batch end in a new
  state object that stores what the initial state stored, and the callback is called
  once after mount.
\<close>

lemma provider_trace_example:
  "map (\<lambda>(f, s, r). (f, address s, state_canScroll (contents s) ''down''))
     (calls (Overflow_run (Some 7) 0
        [CHANGE down True, CHANGE down True, CHANGE up False, CHANGE down False])) =
   [(7, 0, Some False), (7, 2, Some True), (7, 3, Some False)]"
  by (simp add: Overflow_run_def Overflow_mount_def getInitialState_def onStateChange_effect_def
      reducer_def same_object_def Let_def Overflow_dispatch_alone Overflow_commit_def
      onStateChange_deps_def)

lemma provider_batch_example:
  "map (\<lambda>(f, s, r). (f, address s, state_canScroll (contents s) ''down''))
     (calls (Overflow_batches (Some 7) 0
        [[CHANGE down True, CHANGE down True, CHANGE up False, CHANGE down False]])) =
   [(7, 0, Some False), (7, 3, Some False)]"
  by (simp add: Overflow_batches_def Overflow_batch_def Overflow_mount_def getInitialState_def
      onStateChange_effect_def reducer_def same_object_def Let_def Overflow_commit_def
      onStateChange_deps_def)

section \<open>The edge watchers: what is dispatched, and teardown\<close>

text \<open>
  Claim C7. A report that is not ignored, in a component whose context has a \<open>dispatch\<close>,
  dispatches a \<open>CHANGE\<close> for the watcher's direction whose boolean is true exactly when
  the target's bounding box has a non-zero width or a non-zero height, the intersection
  ratio is not \<open>0\<close> and \<open>isIntersecting\<close> is true; when one of the three fails the boolean
  is false.
\<close>

theorem report_dispatches_conjunction_of_three_conditions:
  "observer_callback False (Some f) d entry =
     Some (CHANGE d ((width (boundingClientRect entry) \<noteq> 0 \<or>
                      height (boundingClientRect entry) \<noteq> 0) \<and>
                     intersectionRatio entry \<noteq> 0 \<and> isIntersecting entry))"
  by (auto simp add: observer_callback_def or_number_def Let_def)

theorem report_dispatches_conjunction_of_three_conditions_witness:
  "observer_callback False (Some ProviderDispatch) down
     \<lparr>boundingClientRect = \<lparr>width = 0, height = 40\<rparr>, intersectionRatio = 1 / 2,
      isIntersecting = True\<rparr> = Some (CHANGE down True) \<and>
   observer_callback False (Some ProviderDispatch) down
     \<lparr>boundingClientRect = \<lparr>width = 0, height = 40\<rparr>, intersectionRatio = 1 / 2,
      isIntersecting = False\<rparr> = Some (CHANGE down False) \<and>
   observer_callback False (Some ProviderDispatch) down
     \<lparr>boundingClientRect = \<lparr>width = 0, height = 40\<rparr>, intersectionRatio = 0,
      isIntersecting = True\<rparr> = Some (CHANGE down False) \<and>
   observer_callback False (Some ProviderDispatch) down
     \<lparr>boundingClientRect = \<lparr>width = 0, height = 0\<rparr>, intersectionRatio = 1 / 2,
      isIntersecting = True\<rparr> = Some (CHANGE down False)"
  using
    report_dispatches_conjunction_of_three_conditions [of ProviderDispatch down
      "\<lparr>boundingClientRect = \<lparr>width = 0, height = 40\<rparr>, intersectionRatio = 1 / 2,
        isIntersecting = True\<rparr>"]
    report_dispatches_conjunction_of_three_conditions [of ProviderDispatch down
      "\<lparr>boundingClientRect = \<lparr>width = 0, height = 40\<rparr>, intersectionRatio = 1 / 2,
        isIntersecting = False\<rparr>"]
    report_dispatches_conjunction_of_three_conditions [of ProviderDispatch down
      "\<lparr>boundingClientRect = \<lparr>width = 0, height = 40\<rparr>, intersectionRatio = 0,
        isIntersecting = True\<rparr>"]
    report_dispatches_conjunction_of_three_conditions [of ProviderDispatch down
      "\<lparr>boundingClientRect = \<lparr>width = 0, height = 0\<rparr>, intersectionRatio = 1 / 2,
        isIntersecting = True\<rparr>"]
  by simp

text \<open>
  Claim C5. Once the cleanup of the watcher effect has run, a report from the watcher of
  any direction with any entry dispatches no action and leaves the provider as it was:
  the state is the same and the callback is not called. After the cleanup none of the
  four watchers observes a node, whatever the watchers had observed or reported before.
\<close>

theorem late_report_dropped_and_watchers_disconnected:
  "ignore (content (teardown sys)) \<and>
   observer_callback (ignore (content (teardown sys))) dispatch d entry = None \<and>
   report d entry (teardown sys) = teardown sys \<and>
   reducer_state (provider (report d entry (teardown sys))) = reducer_state (provider sys) \<and>
   calls (provider (report d entry (teardown sys))) = calls (provider sys) \<and>
   targets (observers (content (teardown sys)) up) = [] \<and>
   targets (observers (content (teardown sys)) left) = [] \<and>
   targets (observers (content (teardown sys)) right) = [] \<and>
   targets (observers (content (teardown sys)) down) = []"
  by (simp add: report_def teardown_def watchers_cleanup_def observer_callback_def
      disconnect_def)

text \<open>
  The guard is what drops the report: without the cleanup, the same report reaches the
  provider.
\<close>

lemma report_before_teardown:
  "observer_callback (ignore (content sys)) (callback_dispatch (content sys))
     (observer_direction (observers (content sys) d)) entry = Some action \<Longrightarrow>
   report d entry sys =
     sys\<lparr>provider := Overflow_dispatch (onStateChange_prop sys) action (provider sys)\<rparr>"
  by (simp add: report_def)

section \<open>Root margins of the four watchers\<close>

lemma watcher_margin_up:
  "watcher_margin up = Some \<lparr>margin_top = Percent 100, margin_right = Px 0,
                               margin_bottom = Percent (- 100), margin_left = Px 0\<rparr>"
  by (simp add: watcher_margin_def watchers_effect_def createObserver_def parse_rootMargin_def
      parse_length_def parse_unsigned_def parse_unit_def is_digit_def)

lemma watcher_margin_left:
  "watcher_margin left = Some \<lparr>margin_top = Px 0, margin_right = Percent (- 100),
                                 margin_bottom = Px 0, margin_left = Percent 100\<rparr>"
  by (simp add: watcher_margin_def watchers_effect_def createObserver_def parse_rootMargin_def
      parse_length_def parse_unsigned_def parse_unit_def is_digit_def)

lemma watcher_margin_right:
  "watcher_margin right = Some \<lparr>margin_top = Px 0, margin_right = Percent 100,
                                  margin_bottom = Px 0, margin_left = Percent (- 100)\<rparr>"
  by (simp add: watcher_margin_def watchers_effect_def createObserver_def parse_rootMargin_def
      parse_length_def parse_unsigned_def parse_unit_def is_digit_def)

lemma watcher_margin_down:
  "watcher_margin down = Some \<lparr>margin_top = Percent (- 100), margin_right = Px 0,
                                 margin_bottom = Percent 100, margin_left = Px 0\<rparr>"
  by (simp add: watcher_margin_def watchers_effect_def createObserver_def parse_rootMargin_def
      parse_length_def parse_unsigned_def parse_unit_def is_digit_def)

lemma watcher_margin_independent_of_context:
  "parse_rootMargin (observer_rootMargin (observers (watchers_effect dispatch rootNode) d)) =
   watcher_margin d"
  by (cases d) (simp_all add: watcher_margin_def watchers_effect_def createObserver_def)

text \<open>
  Claim C4, as the program has it. For each direction \<open>D\<close> the margin vector of its
  watcher moves the side of the root's box that faces \<open>D\<close> outwards by 100% and the
  opposite side inwards by 100%, and leaves the two other sides at \<open>0px\<close>: the test
  region is the viewport's box moved by its whole extent towards \<open>D\<close>. For \<open>up\<close> the
  vector is top 100%, right \<open>0px\<close>, bottom -100%, left \<open>0px\<close>.
\<close>

theorem watcher_margin_shifts_region_towards_direction:
  "map_option (side D) (watcher_margin D) = Some (Percent 100) \<and>
   map_option (side (opposite D)) (watcher_margin D) = Some (Percent (- 100)) \<and>
   watcher_margin up = Some \<lparr>margin_top = Percent 100, margin_right = Px 0,
                               margin_bottom = Percent (- 100), margin_left = Px 0\<rparr> \<and>
   watcher_margin left = Some \<lparr>margin_top = Px 0, margin_right = Percent (- 100),
                                 margin_bottom = Px 0, margin_left = Percent 100\<rparr> \<and>
   watcher_margin right = Some \<lparr>margin_top = Px 0, margin_right = Percent 100,
                                  margin_bottom = Px 0, margin_left = Percent (- 100)\<rparr> \<and>
   watcher_margin down = Some \<lparr>margin_top = Percent (- 100), margin_right = Px 0,
                                 margin_bottom = Percent 100, margin_left = Px 0\<rparr>"
  by (cases D)
    (simp_all add: watcher_margin_up watcher_margin_left watcher_margin_right watcher_margin_down)

text \<open>
  The claim as the specification words it fails already for \<open>up\<close>: the top component
  of the margin vector, the side facing \<open>up\<close>, is 100% and not a zero offset.
\<close>

theorem watcher_margin_up_top_not_zero:
  "map_option (side up) (watcher_margin up) = Some (Percent 100) \<and>
   map_option margin_top (watcher_margin up) = Some (Percent 100) \<and>
   \<not> zero_offset (Percent 100)"
  by (simp add: watcher_margin_up)

section \<open>The tolerance adapter: which node is watched\<close>

text \<open>
  Claim C8, as the program has it. The test on the tolerance is JavaScript truthiness.
  When the tolerance is absent, the number \<open>0\<close> or the empty string, no proxy element is
  rendered and the four watchers observe the content node. For every other value, a
  non-zero number or a non-empty string, the proxy element is rendered, absolutely
  positioned with \<open>top\<close>, \<open>left\<close>, \<open>right\<close> and \<open>bottom\<close> equal to the tolerance, with a
  transparent background and no pointer events, and the four watchers observe the proxy
  instead of the content node. A non-empty string that denotes a zero length, such as
  \<open>'0px'\<close>, is among the values that get a proxy.
\<close>

theorem watched_node_by_truthiness_of_tolerance:
  "\<exists>h. OverflowContent_mount
          (Some \<lparr>ctx_tolerance = t, ctx_refs = Some r, ctx_canScroll = cs, ctx_state = st,
                 ctx_dispatch = f\<rparr>) = Inr h \<and>
     (if t = None \<or> t = Some (Num 0) \<or> t = Some (Str [])
      then toleranceElement t = None \<and> (\<forall>d. targets (observers h d) = [contentNode])
      else (\<exists>e. toleranceElement t = Some e \<and>
                map_of (style e) ''top'' = t \<and> map_of (style e) ''left'' = t \<and>
                map_of (style e) ''right'' = t \<and> map_of (style e) ''bottom'' = t \<and>
                map_of (style e) ''position'' = Some (Str ''absolute'') \<and>
                map_of (style e) ''background'' = Some (Str ''transparent'') \<and>
                map_of (style e) ''pointerEvents'' = Some (Str ''none'') \<and>
                (\<forall>d. targets (observers h d) = [toleranceNode])))"
proof (cases "t = None \<or> t = Some (Num 0) \<or> t = Some (Str [])")
  case True
  then show ?thesis
    by (auto simp add: OverflowContent_mount_def useOverflow_def toleranceElement_def
        watchRef_def current_def observe_effect_def watchers_effect_def createObserver_def
        observe_def Let_def split: Direction.splits)
next
  case False
  then obtain x where t: "t = Some x" and x: "truthy x"
    by (cases t; cases "the t") auto
  show ?thesis using False
    unfolding t
    by (auto simp add: x OverflowContent_mount_def useOverflow_def toleranceElement_def
        watchRef_def current_def observe_effect_def watchers_effect_def createObserver_def
        observe_def Let_def split: Direction.splits)
qed

text \<open>
  The claim as the specification words it fails for a tolerance of zero written as a
  CSS length: for \<open>'0px'\<close> the proxy element is rendered, with an inset of \<open>'0px'\<close>, and
  it is the proxy that is watched.
\<close>

theorem zero_length_string_tolerance_gets_proxy:
  "watchRef (Some (Str ''0px'')) = toleranceRef \<and>
   toleranceElement (Some (Str ''0px'')) \<noteq> None \<and>
   current (Some (Str ''0px'')) (watchRef (Some (Str ''0px''))) = Some toleranceNode \<and>
   OverflowContent_mount (Some (Overflow_context (Some (Str ''0px'')) (Overflow_mount None 0))) =
     Inr (observe_effect (Some toleranceNode)
            (watchers_effect (Some ProviderDispatch) (Some viewportNode))) \<and>
   targets (observers (observe_effect (Some toleranceNode)
              (watchers_effect (Some ProviderDispatch) (Some viewportNode))) down) =
     [toleranceNode]"
  by (simp add: watchRef_def toleranceElement_def current_def OverflowContent_mount_def
      useOverflow_def Overflow_context_def Overflow_mount_def getInitialState_def
      onStateChange_effect_def observe_effect_def watchers_effect_def createObserver_def
      observe_def Let_def)

section \<open>The indicator evaluator\<close>

text \<open>
  Claim C10. The active signal of the indicator is \<open>canScroll[direction]\<close> when a
  direction is supplied, for every \<open>canScroll\<close> object; with no direction and a
  \<open>CanScroll\<close> of four booleans it is the disjunction of the four. A static child is
  rendered exactly when the signal is true.
\<close>

theorem isActive_is_entry_or_disjunction:
  "isActive canScroll (Some d) = canScroll (Direction_value d) \<and>
   isActive [''up'' \<mapsto> u, ''left'' \<mapsto> l, ''right'' \<mapsto> r, ''down'' \<mapsto> b] None =
     Some (u \<or> l \<or> r \<or> b) \<and>
   OverflowIndicator
       (Some \<lparr>ctx_tolerance = t, ctx_refs = rs, ctx_canScroll = cs,
              ctx_state = Some (Obj a \<lparr>state_canScroll = canScroll\<rparr>), ctx_dispatch = f\<rparr>)
       (Element e) direction =
     Inr (if isActive canScroll direction = Some True then Some e else None)"
  by (cases u; cases l; cases r; cases b)
    (simp_all add: isActive_def or_boolean_def OverflowIndicator_def useOverflow_def)

text \<open>
  Claim C1, as the program has it. With no enclosing provider the indicator reads the
  default context, which is the empty object: it has no state, no refs, no dispatch and
  no tolerance. Evaluation then fails with a \<open>TypeError\<close> when it takes \<open>canScroll\<close> from
  the missing state, whatever the children, for every supplied direction and when no
  direction is supplied. Inside a provider that has just been mounted, a static
  indicator is inactive for every direction and for no direction.
\<close>

theorem indicator_without_provider_raises_TypeError:
  "useOverflow None = Context \<and>
   ctx_state Context = None \<and>
   OverflowIndicator None children direction = Inl TypeError \<and>
   OverflowIndicator (Some (Overflow_context tolerance (Overflow_mount onStateChange a)))
     (Element e) direction = Inr None"
  by (cases direction; cases "the direction")
    (simp_all add: OverflowIndicator_def useOverflow_def Context_def Overflow_context_def
      Overflow_mount_def getInitialState_def onStateChange_effect_def isActive_def
      or_boolean_def split: option.splits)

text \<open>
  The claim as the specification words it fails for an indicator for \<open>up\<close> with a static
  child: outside a provider the result is the error, not an inactive indicator.
\<close>

theorem indicator_up_without_provider_fails:
  "OverflowIndicator None (Element ''indicator'') (Some up) = Inl TypeError \<and>
   OverflowIndicator None (Element ''indicator'') (Some up) \<noteq> Inr None"
  by (simp add: OverflowIndicator_def useOverflow_def Context_def)

end
